theory Spec2Isabelle
  imports Main "HOL-Library.Multiset" "HOL-Library.Word"
begin

section \<open>Python values used by the proxy scripts\<close>

text \<open>
  Strings are \<open>char list\<close>s restricted to ASCII. Values decoded from JSON
  (\<open>response.json()\<close>) are modelled by \<open>json\<close>; numbers are integers, and a
  decoded object is the list of its items (keys distinct, as in a Python dict).
\<close>

datatype json =
    JNull
  | JBool bool
  | JNum int
  | JStr string
  | JList "json list"
  | JDict "(string \<times> json) list"

text \<open>Python truthiness (\<open>if x\<close>, \<open>x or y\<close>, \<open>x and y\<close>).\<close>

fun truthy :: "json \<Rightarrow> bool" where
  "truthy JNull = False"
| "truthy (JBool b) = b"
| "truthy (JNum n) = (n \<noteq> 0)"
| "truthy (JStr s) = (s \<noteq> [])"
| "truthy (JList xs) = (xs \<noteq> [])"
| "truthy (JDict d) = (d \<noteq> [])"

text \<open>\<open>a or b\<close>: the first operand when it is truthy, the second otherwise.\<close>

definition py_or :: "json \<Rightarrow> json \<Rightarrow> json" where
  "py_or a b = (if truthy a then a else b)"

text \<open>
  \<open>data.get(key, default)\<close>. On a value that is not a dict the attribute lookup
  raises AttributeError, modelled as \<open>None\<close>.
\<close>

definition py_get :: "json \<Rightarrow> string \<Rightarrow> json \<Rightarrow> json option" where
  "py_get data k dflt =
     (case data of
        JDict d \<Rightarrow> Some (case map_of d k of Some v \<Rightarrow> v | None \<Rightarrow> dflt)
      | _ \<Rightarrow> None)"

subsection \<open>String operations\<close>

text \<open>The ASCII characters that \<open>str.strip()\<close> treats as whitespace.\<close>

definition is_space :: "char \<Rightarrow> bool" where
  "is_space c = (let n = (of_char c :: nat) in (9 \<le> n \<and> n \<le> 13) \<or> (28 \<le> n \<and> n \<le> 32))"

definition py_strip :: "string \<Rightarrow> string" where
  "py_strip s = rev (dropWhile is_space (rev (dropWhile is_space s)))"

text \<open>\<open>s.split(sep)\<close> for a one-character separator: never the empty list.\<close>

fun py_split :: "char \<Rightarrow> string \<Rightarrow> string list" where
  "py_split sep [] = [[]]"
| "py_split sep (c # cs) =
     (if c = sep then [] # py_split sep cs
      else (case py_split sep cs of
              w # ws \<Rightarrow> (c # w) # ws
            | [] \<Rightarrow> [[c]]))"

text \<open>\<open>s.startswith(p)\<close>.\<close>

definition startswith :: "string \<Rightarrow> string \<Rightarrow> bool" where
  "startswith s p = (take (length p) s = p)"

text \<open>\<open>sub in s\<close> on two strings: \<open>sub\<close> occurs as a contiguous substring.\<close>

fun py_in :: "string \<Rightarrow> string \<Rightarrow> bool" where
  "py_in sub [] = (sub = [])"
| "py_in sub (c # cs) = (startswith (c # cs) sub \<or> py_in sub cs)"

definition is_digit :: "char \<Rightarrow> bool" where
  "is_digit c = (let n = (of_char c :: nat) in 48 \<le> n \<and> n \<le> 57)"

definition digit_val :: "char \<Rightarrow> int" where
  "digit_val c = int (of_char c) - 48"

text \<open>
  The body of an integer literal accepted by \<open>int(s)\<close>: digits, with single underscores
  allowed between two digits.
\<close>

fun int_body :: "string \<Rightarrow> bool" where
  "int_body [] = False"
| "int_body [c] = is_digit c"
| "int_body (c # d # cs) =
     (if is_digit c then int_body (d # cs)
      else c = CHR ''_'' \<and> is_digit d \<and> int_body (d # cs))"

definition int_literal :: "string \<Rightarrow> bool" where
  "int_literal s = (case s of [] \<Rightarrow> False | c # _ \<Rightarrow> is_digit c \<and> int_body s)"

definition digits_val :: "string \<Rightarrow> int" where
  "digits_val s = foldl (\<lambda>a c. 10 * a + digit_val c) 0 (filter is_digit s)"

text \<open>
  The whitespace that \<open>int()\<close> skips around the literal of an ASCII string: tab, line
  feed, vertical tab, form feed, carriage return and space. It is a smaller set than the
  one of \<open>str.strip()\<close>: the separators 28 to 31 are not skipped.
\<close>

definition is_int_space :: "char \<Rightarrow> bool" where
  "is_int_space c = (let n = (of_char c :: nat) in (9 \<le> n \<and> n \<le> 13) \<or> n = 32)"

definition int_strip :: "string \<Rightarrow> string" where
  "int_strip s = rev (dropWhile is_int_space (rev (dropWhile is_int_space s)))"

text \<open>
  The default of \<open>sys.get_int_max_str_digits()\<close>: a literal with more digits (underscores
  not counted) is refused. The scripts do not change the default.
\<close>

definition max_str_digits :: nat where
  "max_str_digits = 4300"

text \<open>\<open>int(s)\<close>: \<open>None\<close> stands for ValueError.\<close>

definition py_int :: "string \<Rightarrow> int option" where
  "py_int s =
     (let t = int_strip s;
          (sgn, body) = (case t of
                           c # r \<Rightarrow> if c = CHR ''-'' then (- 1, r)
                                    else if c = CHR ''+'' then (1, r)
                                    else (1, t)
                         | [] \<Rightarrow> (1 :: int, t))
      in if int_literal body \<and> length (filter is_digit body) \<le> max_str_digits
         then Some (sgn * digits_val body) else None)"

text \<open>\<open>str(n)\<close> for an integer, used by f-strings.\<close>

fun nat_digits :: "nat \<Rightarrow> string" where
  "nat_digits n =
     (if n < 10 then [char_of (48 + n)]
      else nat_digits (n div 10) @ [char_of (48 + n mod 10)])"

definition str_int :: "int \<Rightarrow> string" where
  "str_int i = (if i < 0 then CHR ''-'' # nat_digits (nat (- i)) else nat_digits (nat i))"

subsection \<open>Equality and membership on decoded JSON values\<close>

text \<open>
  Python's \<open>==\<close> on decoded values: \<open>True == 1\<close> and \<open>False == 0\<close>, lists compare
  elementwise, dicts compare as key-value maps.
\<close>

fun py_eq :: "json \<Rightarrow> json \<Rightarrow> bool"
  and py_eq_list :: "json list \<Rightarrow> json list \<Rightarrow> bool"
  and py_eq_items :: "(string \<times> json) list \<Rightarrow> (string \<times> json) list \<Rightarrow> bool"
where
  "py_eq JNull y = (y = JNull)"
| "py_eq (JBool a) y =
     (case y of JBool b \<Rightarrow> a = b | JNum n \<Rightarrow> n = (if a then 1 else 0) | _ \<Rightarrow> False)"
| "py_eq (JNum m) y =
     (case y of JNum n \<Rightarrow> m = n | JBool b \<Rightarrow> m = (if b then 1 else 0) | _ \<Rightarrow> False)"
| "py_eq (JStr s) y = (y = JStr s)"
| "py_eq (JList xs) y = (case y of JList ys \<Rightarrow> py_eq_list xs ys | _ \<Rightarrow> False)"
| "py_eq (JDict d) y =
     (case y of JDict e \<Rightarrow> length d = length e \<and> py_eq_items d e | _ \<Rightarrow> False)"
| "py_eq_list [] ys = (ys = [])"
| "py_eq_list (x # xs) ys =
     (case ys of [] \<Rightarrow> False | y # ys' \<Rightarrow> py_eq x y \<and> py_eq_list xs ys')"
| "py_eq_items [] e = True"
| "py_eq_items ((k, v) # d) e =
     ((case map_of e k of None \<Rightarrow> False | Some w \<Rightarrow> py_eq v w) \<and> py_eq_items d e)"

text \<open>
  \<open>x in c\<close>. \<open>None\<close> stands for TypeError: a non-string on the left of a string, an
  unhashable key looked up in a dict, or a right operand that is not a container.
\<close>

definition py_contains :: "json \<Rightarrow> json \<Rightarrow> bool option" where
  "py_contains x c =
     (case c of
        JStr s \<Rightarrow> (case x of JStr t \<Rightarrow> Some (py_in t s) | _ \<Rightarrow> None)
      | JList ys \<Rightarrow> Some (list_ex (py_eq x) ys)
      | JDict d \<Rightarrow>
          (case x of
             JList _ \<Rightarrow> None
           | JDict _ \<Rightarrow> None
           | JStr k \<Rightarrow> Some (k \<in> set (map fst d))
           | _ \<Rightarrow> Some False)
      | _ \<Rightarrow> None)"

section \<open>The network and the clock\<close>

text \<open>
  The scripts talk to the network through \<open>requests.get\<close> and read the clock. Both are
  inputs of the model. A request either raises (one constructor per \<open>except\<close> clause
  that can catch it) or returns a response; \<open>json_body\<close> is \<open>None\<close> when
  \<open>response.json()\<close> raises. Printing is not modelled, and neither are exceptions
  that do not derive from \<open>Exception\<close> (KeyboardInterrupt, SystemExit), which reach
  the main thread only.
\<close>

datatype req_exn = Timeout | ProxyError | ConnectionError | OtherError string

text \<open>
  What a statement of the scripts can raise: the exceptions of the built-in operations
  (their messages are not modelled) and the failure of a request. Every one of these
  classes derives from \<open>Exception\<close>, so a clause \<open>except Exception\<close> catches it, as a
  bare \<open>except\<close> does.
\<close>

datatype py_exn =
    ValueError
  | AttributeError
  | TypeError
  | IndexError
  | ZeroDivisionError
  | RequestFailure req_exn

definition derives_from_Exception :: "py_exn \<Rightarrow> bool" where
  "derives_from_Exception e =
     (case e of
        ValueError \<Rightarrow> True
      | AttributeError \<Rightarrow> True
      | TypeError \<Rightarrow> True
      | IndexError \<Rightarrow> True
      | ZeroDivisionError \<Rightarrow> True
      | RequestFailure r \<Rightarrow> True)"

record http_response =
  status_code :: int
  json_body :: "json option"
  resp_text :: string

type_synonym http_outcome = "req_exn + http_response"

text \<open>
  What one probe observes: the timestamp, the outcome of the request sent through the
  proxy, and \<open>round((time.time() - start_time) * 1000)\<close>.
\<close>

record probe_env =
  now_iso :: string
  response :: http_outcome
  elapsed_ms :: int

text \<open>
  The result dict of a probe. A key that one script's dict does not have is \<open>None\<close>
  here (\<open>user\<close>, \<open>password\<close>, \<open>error\<close> in the scanner, \<open>country\<close> in
  the tester); \<open>latency\<close> is a key of every result dict.
\<close>

record probe_result =
  proxy :: string
  ip :: string
  port :: int
  user :: "string option"
  password :: "string option"
  working :: bool
  latency :: "int option"
  anonymous :: "bool option"
  exit_ip :: "json option"
  country :: "string option"
  error :: "string option"
  tested_at :: string

section \<open>socks5\_tester.py\<close>

subsection \<open>get\_my\_real\_ip\<close>






subsection \<open>load\_proxies\<close>

text \<open>
  \<open>INPUT_URL\<close> is \<open>None\<close>, so only the file branch runs. The argument is the list
  of the file's lines, or \<open>None\<close> when the file does not exist.
\<close>

definition keep_line :: "string \<Rightarrow> bool" where
  "keep_line l = (l \<noteq> [] \<and> py_in '':'' l \<and> \<not> startswith l ''#'')"

fun load_lines :: "string list \<Rightarrow> string list \<Rightarrow> string list" where
  "load_lines [] proxies = proxies"
| "load_lines (l # ls) proxies =
     (let line = py_strip l
      in if keep_line line then load_lines ls (proxies @ [line])
         else load_lines ls proxies)"

definition load_proxies :: "string list option \<Rightarrow> string list" where
  "load_proxies file = (case file of Some ls \<Rightarrow> load_lines ls [] | None \<Rightarrow> [])"

subsection \<open>test\_socks5\_proxy\<close>

text \<open>The first \<open>try\<close> block: the fields of the line, or \<open>None\<close> for \<open>return None\<close>.\<close>

definition parse_proxy :: "string \<Rightarrow> (string \<times> int \<times> string option \<times> string option) option" where
  "parse_proxy line =
     (case py_split CHR '':'' line of
        [a, p] \<Rightarrow>
          (case py_int p of None \<Rightarrow> None | Some n \<Rightarrow> Some (a, n, None, None))
      | [a, p, u, pw] \<Rightarrow>
          (case py_int p of None \<Rightarrow> None | Some n \<Rightarrow> Some (a, n, Some u, Some pw))
      | _ \<Rightarrow> None)"

definition new_result ::
  "string \<Rightarrow> string \<times> int \<times> string option \<times> string option \<Rightarrow> string \<Rightarrow> probe_result" where
  "new_result line f now =
     (case f of (a, n, u, pw) \<Rightarrow>
        \<lparr>proxy = line, ip = a, port = n, user = u, password = pw, working = False,
         latency = None, anonymous = None, exit_ip = None, country = None, error = None,
         tested_at = now\<rparr>)"

text \<open>
  The inner \<open>try\<close> block after a 200 response: the exit IP is the first comma-separated
  field of \<open>origin\<close>, stripped; an exception anywhere leaves the result as it is then.
\<close>

definition check_exit_ip :: "json \<Rightarrow> http_response \<Rightarrow> probe_result \<Rightarrow> probe_result" where
  "check_exit_ip my_real_ip resp result =
     (case json_body resp of
        None \<Rightarrow> result
      | Some data \<Rightarrow>
          (case py_get data ''origin'' (JStr []) of
             Some (JStr origin) \<Rightarrow>
               (case py_split CHR '','' origin of
                  [] \<Rightarrow> result
                | first # _ \<Rightarrow>
                    (let e = py_strip first;
                         result1 = result\<lparr>exit_ip := Some (JStr e)\<rparr>
                     in if truthy my_real_ip \<and> e \<noteq> [] then
                          (case py_contains my_real_ip (JStr e) of
                             Some b \<Rightarrow> result1\<lparr>anonymous := Some (\<not> b)\<rparr>
                           | None \<Rightarrow> result1)
                        else result1))
           | _ \<Rightarrow> result))"

definition error_text :: "req_exn \<Rightarrow> string" where
  "error_text e =
     (case e of
        Timeout \<Rightarrow> ''Timeout''
      | ProxyError \<Rightarrow> ''Proxy error''
      | ConnectionError \<Rightarrow> ''Connection error''
      | OtherError msg \<Rightarrow> take 50 msg)"

text \<open>
  The second \<open>try\<close> block: the final value of the local \<open>result\<close>, and whether the
  function leaves through \<open>return result\<close> (otherwise it reaches \<open>return None\<close>).
\<close>

definition probe_body :: "json \<Rightarrow> probe_env \<Rightarrow> probe_result \<Rightarrow> probe_result \<times> bool" where
  "probe_body my_real_ip env result =
     (case response env of
        Inl e \<Rightarrow> (result\<lparr>error := Some (error_text e)\<rparr>, False)
      | Inr resp \<Rightarrow>
          if status_code resp = 200 then
            (check_exit_ip my_real_ip resp
               (result\<lparr>working := True, latency := Some (elapsed_ms env)\<rparr>), True)
          else (result\<lparr>error := Some (''HTTP '' @ str_int (status_code resp))\<rparr>, False))"

definition test_socks5_proxy :: "json \<Rightarrow> probe_env \<Rightarrow> string \<Rightarrow> probe_result option" where
  "test_socks5_proxy my_real_ip env line =
     (case parse_proxy line of
        None \<Rightarrow> None
      | Some f \<Rightarrow>
          (case probe_body my_real_ip env (new_result line f (now_iso env)) of
             (result, returned) \<Rightarrow> if returned then Some result else None))"

subsection \<open>test\_socks5\_proxy with its exceptions written out\<close>

text \<open>
  The same function, statement by statement, with every exception a statement raises as
  a value and every \<open>except\<close> clause as the case that catches it. The result is
  \<open>Inl\<close> when an exception leaves the function.

  The body of the first \<open>try\<close>: \<open>int(port)\<close> raises ValueError; \<open>Inr None\<close> is the
  \<open>return None\<close> of the \<open>else\<close> branch.
\<close>

definition parse_block ::
  "string \<Rightarrow> py_exn + (string \<times> int \<times> string option \<times> string option) option" where
  "parse_block line =
     (case py_split CHR '':'' line of
        [a, p] \<Rightarrow>
          (case py_int p of None \<Rightarrow> Inl ValueError | Some n \<Rightarrow> Inr (Some (a, n, None, None)))
      | [a, p, u, pw] \<Rightarrow>
          (case py_int p of None \<Rightarrow> Inl ValueError | Some n \<Rightarrow> Inr (Some (a, n, Some u, Some pw)))
      | _ \<Rightarrow> Inr None)"

text \<open>
  The body of the inner \<open>try\<close>: the result as the body leaves it, and the exception
  that ended it, if any. \<open>response.json()\<close> raises ValueError, \<open>.get\<close> and
  \<open>.split\<close> raise AttributeError on a value without them, \<open>not in\<close> raises
  TypeError.
\<close>

definition exit_ip_block :: "json \<Rightarrow> http_response \<Rightarrow> probe_result \<Rightarrow> probe_result \<times> py_exn option" where
  "exit_ip_block my_real_ip resp result =
     (case json_body resp of
        None \<Rightarrow> (result, Some ValueError)
      | Some data \<Rightarrow>
          (case py_get data ''origin'' (JStr []) of
             None \<Rightarrow> (result, Some AttributeError)
           | Some (JStr origin) \<Rightarrow>
               (case py_split CHR '','' origin of
                  [] \<Rightarrow> (result, Some IndexError)
                | first # _ \<Rightarrow>
                    (let e = py_strip first;
                         result1 = result\<lparr>exit_ip := Some (JStr e)\<rparr>
                     in if truthy my_real_ip \<and> e \<noteq> [] then
                          (case py_contains my_real_ip (JStr e) of
                             Some b \<Rightarrow> (result1\<lparr>anonymous := Some (\<not> b)\<rparr>, None)
                           | None \<Rightarrow> (result1, Some TypeError))
                        else (result1, None)))
           | Some _ \<Rightarrow> (result, Some AttributeError)))"

text \<open>
  The body of the second \<open>try\<close>: the local \<open>result\<close>, and either the exception that
  ended the body or whether it left through \<open>return result\<close>. The inner \<open>try\<close> has
  a bare \<open>except: pass\<close>, which drops the exception of its body.
\<close>

definition request_block :: "json \<Rightarrow> probe_env \<Rightarrow> probe_result \<Rightarrow> probe_result \<times> (py_exn + bool)" where
  "request_block my_real_ip env result =
     (case response env of
        Inl e \<Rightarrow> (result, Inl (RequestFailure e))
      | Inr resp \<Rightarrow>
          if status_code resp = 200 then
            (fst (exit_ip_block my_real_ip resp
                    (result\<lparr>working := True, latency := Some (elapsed_ms env)\<rparr>)), Inr True)
          else (result\<lparr>error := Some (''HTTP '' @ str_int (status_code resp))\<rparr>, Inr False))"

text \<open>
  The function: the bare \<open>except\<close> of the first \<open>try\<close> returns \<open>None\<close> on any
  exception; the clauses of the second end with \<open>except Exception\<close>, and an exception
  they catch leads to \<open>return None\<close>.
\<close>

definition test_socks5_proxy_raising ::
  "json \<Rightarrow> probe_env \<Rightarrow> string \<Rightarrow> py_exn + probe_result option" where
  "test_socks5_proxy_raising my_real_ip env line =
     (case parse_block line of
        Inl e \<Rightarrow> Inr None
      | Inr None \<Rightarrow> Inr None
      | Inr (Some f) \<Rightarrow>
          (case request_block my_real_ip env (new_result line f (now_iso env)) of
             (result, Inl e) \<Rightarrow> if derives_from_Exception e then Inr None else Inl e
           | (result, Inr returned) \<Rightarrow> Inr (if returned then Some result else None)))"

subsection \<open>test\_all\_proxies, save\_results\<close>

text \<open>
  \<open>as_completed\<close> yields the submitted probes in the order they finish. The loop takes
  that sequence: each submitted line with what its probe observed. The state is
  \<open>working\<close> and \<open>tested\<close>.
\<close>

fun collect_loop ::
  "(probe_env \<Rightarrow> string \<Rightarrow> probe_result option) \<Rightarrow> (string \<times> probe_env) list \<Rightarrow>
   probe_result list \<times> nat \<Rightarrow> probe_result list \<times> nat"
where
  "collect_loop probe [] st = st"
| "collect_loop probe ((line, env) # rest) (working_l, tested) =
     (case probe env line of
        Some result \<Rightarrow>
          if working result then collect_loop probe rest (working_l @ [result], tested + 1)
          else collect_loop probe rest (working_l, tested + 1)
      | None \<Rightarrow> collect_loop probe rest (working_l, tested + 1))"

text \<open>
  After the loop the tester prints \<open>100*len(working)/len(proxies)\<close>: with no proxy
  submitted the division raises ZeroDivisionError and the function does not return.
\<close>

definition test_all_proxies ::
  "json \<Rightarrow> (string \<times> probe_env) list \<Rightarrow> py_exn + probe_result list \<times> nat" where
  "test_all_proxies my_real_ip completed =
     (if completed = [] then Inl ZeroDivisionError
      else Inr (collect_loop (test_socks5_proxy my_real_ip) completed ([], 0)))"

text \<open>
  \<open>working.sort(key=lambda x: x.get('latency', 9999))\<close>. Every result dict has the key
  \<open>latency\<close>, so the key is its value; comparing \<open>None\<close> with anything raises
  TypeError (\<open>None\<close> here), which needs two elements. \<open>list.sort\<close> is stable.
\<close>

definition latency_key :: "probe_result \<Rightarrow> int" where
  "latency_key x = (case latency x of Some l \<Rightarrow> l | None \<Rightarrow> 9999)"

definition sort_by_latency :: "probe_result list \<Rightarrow> probe_result list option" where
  "sort_by_latency ws =
     (if 2 \<le> length ws \<and> list_ex (\<lambda>x. latency x = None) ws then None
      else Some (sort_key latency_key ws))"

section \<open>socks5\_scanner.py\<close>

text \<open>\<open>CHECK_ANONYMITY\<close> is the constant \<open>True\<close>.\<close>

definition CHECK_ANONYMITY :: bool where
  "CHECK_ANONYMITY = True"

text \<open>
  \<open>ip, port = proxy.split(':')\<close> followed by \<open>int(port)\<close>: unpacking anything but two
  fields raises ValueError, and the bare \<open>except\<close> returns \<open>None\<close>.
\<close>

definition parse_pair :: "string \<Rightarrow> (string \<times> int) option" where
  "parse_pair line =
     (case py_split CHR '':'' line of
        [a, p] \<Rightarrow> (case py_int p of None \<Rightarrow> None | Some n \<Rightarrow> Some (a, n))
      | _ \<Rightarrow> None)"

definition new_result_scanner :: "string \<Rightarrow> string \<times> int \<Rightarrow> string \<Rightarrow> probe_result" where
  "new_result_scanner line f now =
     (case f of (a, n) \<Rightarrow>
        \<lparr>proxy = line, ip = a, port = n, user = None, password = None, working = False,
         latency = None, anonymous = None, exit_ip = None, country = None, error = None,
         tested_at = now\<rparr>)"

subsection \<open>test\_socks5\_with\_pysocks\<close>

text \<open>
  The inner \<open>try\<close> block: \<open>exit_ip\<close> is the whole \<open>origin\<close> value, assigned before
  the membership test, so it stays when the test raises. A field of the result holds
  \<open>None\<close> for Python's \<open>None\<close>, which is what a JSON \<open>null\<close> decodes to.
\<close>

definition field_value :: "json \<Rightarrow> json option" where
  "field_value v = (case v of JNull \<Rightarrow> None | _ \<Rightarrow> Some v)"

definition check_origin :: "json \<Rightarrow> http_response \<Rightarrow> probe_result \<Rightarrow> probe_result" where
  "check_origin my_real_ip resp result =
     (case json_body resp of
        None \<Rightarrow> result
      | Some data \<Rightarrow>
          (case py_get data ''origin'' (JStr []) of
             None \<Rightarrow> result
           | Some origin \<Rightarrow>
               (let result1 = result\<lparr>exit_ip := field_value origin\<rparr>
                in if CHECK_ANONYMITY \<and> truthy my_real_ip then
                     (case py_contains my_real_ip origin of
                        Some b \<Rightarrow> result1\<lparr>anonymous := Some (\<not> b)\<rparr>
                      | None \<Rightarrow> result1)
                   else result1)))"

definition test_socks5_with_pysocks :: "json \<Rightarrow> probe_env \<Rightarrow> string \<Rightarrow> probe_result option" where
  "test_socks5_with_pysocks my_real_ip env line =
     (case parse_pair line of
        None \<Rightarrow> None
      | Some f \<Rightarrow>
          (case response env of
             Inl e \<Rightarrow> None
           | Inr resp \<Rightarrow>
               if status_code resp = 200 then
                 Some (check_origin my_real_ip resp
                         ((new_result_scanner line f (now_iso env))
                            \<lparr>working := True, latency := Some (elapsed_ms env)\<rparr>))
               else None))"

text \<open>
  The same probe with its exceptions written out. Both the unpacking of the split and
  \<open>int(port)\<close> raise ValueError, which the bare \<open>except\<close> turns into
  \<open>return None\<close>; the request sits under \<open>except Exception: pass\<close>, followed by
  \<open>return None\<close>; the inner \<open>try\<close> has a bare \<open>except: pass\<close>.
\<close>

definition pair_block :: "string \<Rightarrow> py_exn + string \<times> int" where
  "pair_block line =
     (case py_split CHR '':'' line of
        [a, p] \<Rightarrow> (case py_int p of None \<Rightarrow> Inl ValueError | Some n \<Rightarrow> Inr (a, n))
      | _ \<Rightarrow> Inl ValueError)"

definition origin_block :: "json \<Rightarrow> http_response \<Rightarrow> probe_result \<Rightarrow> probe_result \<times> py_exn option" where
  "origin_block my_real_ip resp result =
     (case json_body resp of
        None \<Rightarrow> (result, Some ValueError)
      | Some data \<Rightarrow>
          (case py_get data ''origin'' (JStr []) of
             None \<Rightarrow> (result, Some AttributeError)
           | Some origin \<Rightarrow>
               (let result1 = result\<lparr>exit_ip := field_value origin\<rparr>
                in if CHECK_ANONYMITY \<and> truthy my_real_ip then
                     (case py_contains my_real_ip origin of
                        Some b \<Rightarrow> (result1\<lparr>anonymous := Some (\<not> b)\<rparr>, None)
                      | None \<Rightarrow> (result1, Some TypeError))
                   else (result1, None))))"

definition test_socks5_with_pysocks_raising ::
  "json \<Rightarrow> probe_env \<Rightarrow> string \<Rightarrow> py_exn + probe_result option" where
  "test_socks5_with_pysocks_raising my_real_ip env line =
     (case pair_block line of
        Inl e \<Rightarrow> Inr None
      | Inr f \<Rightarrow>
          (case response env of
             Inl e \<Rightarrow>
               if derives_from_Exception (RequestFailure e) then Inr None
               else Inl (RequestFailure e)
           | Inr resp \<Rightarrow>
               if status_code resp = 200 then
                 Inr (Some (fst (origin_block my_real_ip resp
                                   ((new_result_scanner line f (now_iso env))
                                      \<lparr>working := True, latency := Some (elapsed_ms env)\<rparr>))))
               else Inr None))"

definition test_all_proxies_scanner ::
  "json \<Rightarrow> (string \<times> probe_env) list \<Rightarrow> probe_result list \<times> nat" where
  "test_all_proxies_scanner my_real_ip completed =
     collect_loop (test_socks5_with_pysocks my_real_ip) completed ([], 0)"

subsection \<open>test\_socks5\_connection\<close>

text \<open>
  This probe first speaks to the proxy over a raw socket. Each socket call either raises
  or succeeds; \<open>recv\<close> gives the bytes read by \<open>sock.recv(2)\<close>.
\<close>

datatype sock_exn = SocketTimeout | ConnectionRefused | SocketError

record conn_env =
  c_now_iso :: string
  connect :: "sock_exn option"
  sendall :: "sock_exn option"
  recv :: "sock_exn + 8 word list"
  c_response :: http_outcome
  c_elapsed_ms :: int

text \<open>
  Steps 1 and 2: \<open>True\<close> when the greeting was answered with version 5 and a method
  other than \<open>0xFF\<close>; every other path returns \<open>None\<close> from the probe.
\<close>

definition handshake_ok :: "conn_env \<Rightarrow> bool" where
  "handshake_ok env =
     (case connect env of
        Some e \<Rightarrow> False
      | None \<Rightarrow>
          (case sendall env of
             Some e \<Rightarrow> False
           | None \<Rightarrow>
               (case recv env of
                  Inl e \<Rightarrow> False
                | Inr bytes \<Rightarrow>
                    (case bytes of
                       b0 # b1 # _ \<Rightarrow> \<not> b0 \<noteq> 0x05 \<and> \<not> b1 = 0xFF
                     | _ \<Rightarrow> False))))"

text \<open>
  The anonymity check of this probe: the membership test comes first, so nothing is
  assigned when it raises.
\<close>

definition check_returned_ip :: "json \<Rightarrow> http_response \<Rightarrow> probe_result \<Rightarrow> probe_result" where
  "check_returned_ip my_real_ip resp result =
     (if CHECK_ANONYMITY \<and> truthy my_real_ip then
        (case json_body resp of
           None \<Rightarrow> result
         | Some data \<Rightarrow>
             (case py_get data ''origin'' (JStr []) of
                None \<Rightarrow> result
              | Some returned_ip \<Rightarrow>
                  (case py_contains my_real_ip returned_ip of
                     Some b \<Rightarrow> result\<lparr>anonymous := Some (\<not> b), exit_ip := Some returned_ip\<rparr>
                   | None \<Rightarrow> result)))
      else result)"

text \<open>
  Step 3. The bare \<open>except\<close> around the request marks the proxy as working when the
  request raises (``SOCKS5 handshake worked but HTTP failed, still mark as partially
  working''); a response other than 200 leaves \<open>working\<close> false.
\<close>

definition http_step :: "json \<Rightarrow> conn_env \<Rightarrow> probe_result \<Rightarrow> probe_result" where
  "http_step my_real_ip env result =
     (case c_response env of
        Inl e \<Rightarrow> result\<lparr>working := True, latency := Some (c_elapsed_ms env)\<rparr>
      | Inr resp \<Rightarrow>
          if status_code resp = 200 then
            check_returned_ip my_real_ip resp
              (result\<lparr>working := True, latency := Some (c_elapsed_ms env)\<rparr>)
          else result)"

definition test_socks5_connection :: "json \<Rightarrow> conn_env \<Rightarrow> string \<Rightarrow> probe_result option" where
  "test_socks5_connection my_real_ip env line =
     (case parse_pair line of
        None \<Rightarrow> None
      | Some f \<Rightarrow>
          if handshake_ok env then
            Some (http_step my_real_ip env (new_result_scanner line f (c_now_iso env)))
          else None)"

subsection \<open>extract\_proxies\_from\_text\<close>

text \<open>
  \<open>re.findall\<close> with the pattern
  \<^verbatim>\<open>(\d{1,3}\.\d{1,3}\.\d{1,3}\.\d{1,3}):(\d{2,5})\<close>.
  A group \<^verbatim>\<open>\d{1,3}\<close> followed by a literal matches exactly when the run of digits
  at that place has one to three digits and the literal comes next (a shorter choice
  would be followed by a digit). The port group is greedy with nothing after it: the
  first five digits of the run, which must have at least two.
\<close>

definition octet_then :: "char \<Rightarrow> string \<Rightarrow> (string \<times> string) option" where
  "octet_then sep s =
     (let d = takeWhile is_digit s
      in if 1 \<le> length d \<and> length d \<le> 3 then
           (case drop (length d) s of
              c # r \<Rightarrow> if c = sep then Some (d, r) else None
            | [] \<Rightarrow> None)
         else None)"

text \<open>A match at the start of \<open>s\<close>: the two groups and the number of characters matched.\<close>

definition match_here :: "string \<Rightarrow> ((string \<times> string) \<times> nat) option" where
  "match_here s =
     (case octet_then CHR ''.'' s of
        None \<Rightarrow> None
      | Some (a, s1) \<Rightarrow>
          (case octet_then CHR ''.'' s1 of
             None \<Rightarrow> None
           | Some (b, s2) \<Rightarrow>
               (case octet_then CHR ''.'' s2 of
                  None \<Rightarrow> None
                | Some (c, s3) \<Rightarrow>
                    (case octet_then CHR '':'' s3 of
                       None \<Rightarrow> None
                     | Some (d, s4) \<Rightarrow>
                         (let p = take 5 (takeWhile is_digit s4)
                          in if 2 \<le> length p then
                               Some ((a @ ''.'' @ b @ ''.'' @ c @ ''.'' @ d, p),
                                     length s - length s4 + length p)
                             else None)))))"

text \<open>
  The scan: matches do not overlap, so after a match the next attempt starts behind it;
  \<open>skip\<close> counts the characters of the last match still to pass.
\<close>

fun findall_from :: "nat \<Rightarrow> string \<Rightarrow> (string \<times> string) list" where
  "findall_from skip [] = []"
| "findall_from skip (c # cs) =
     (if 0 < skip then findall_from (skip - 1) cs
      else (case match_here (c # cs) of
              Some (m, n) \<Rightarrow> m # findall_from (n - 1) cs
            | None \<Rightarrow> findall_from 0 cs))"

definition findall :: "string \<Rightarrow> (string \<times> string) list" where
  "findall text = findall_from 0 text"

text \<open>
  \<open>all(0 <= int(p) <= 255 for p in parts)\<close>: stops at the first octet out of range;
  \<open>None\<close> when \<open>int\<close> raises first.
\<close>

fun all_octets :: "string list \<Rightarrow> bool option" where
  "all_octets [] = Some True"
| "all_octets (p # ps) =
     (case py_int p of
        None \<Rightarrow> None
      | Some v \<Rightarrow> if 0 \<le> v \<and> v \<le> 255 then all_octets ps else Some False)"

definition valid_match :: "string \<times> string \<Rightarrow> bool" where
  "valid_match m =
     (case m of (a, p) \<Rightarrow>
        (case py_int p of
           None \<Rightarrow> False
         | Some port_int \<Rightarrow>
             if 1 \<le> port_int \<and> port_int \<le> 65535 then
               all_octets (py_split CHR ''.'' a) = Some True
             else False))"

fun extract_loop :: "(string \<times> string) list \<Rightarrow> string list \<Rightarrow> string list" where
  "extract_loop [] proxies = proxies"
| "extract_loop ((a, p) # ms) proxies =
     (if valid_match (a, p) then extract_loop ms (proxies @ [a @ '':'' @ p])
      else extract_loop ms proxies)"

definition extract_proxies_from_text :: "string \<Rightarrow> string list" where
  "extract_proxies_from_text text = extract_loop (findall text) []"

subsection \<open>collect\_from\_sources\<close>

text \<open>
  \<open>all_proxies\<close> is a Python set of strings: it is modelled by the list of its elements,
  and \<open>add\<close> and \<open>update\<close> leave an element that is already there as it is. The order of
  the list has no meaning.
\<close>

definition set_add :: "string \<Rightarrow> string list \<Rightarrow> string list" where
  "set_add x elems = (if x \<in> set elems then elems else elems @ [x])"

fun set_update :: "string list \<Rightarrow> string list \<Rightarrow> string list" where
  "set_update [] elems = elems"
| "set_update (x # xs) elems = set_update xs (set_add x elems)"

text \<open>
  \<open>str_of\<close> is Python's \<open>str()\<close> as used by the f-string \<^verbatim>\<open>f"{ip}:{port}"\<close>; it is a
  parameter. The functions below give the set after the JSON branch and whether that
  branch raised.
\<close>

definition add_dict_item :: "(json \<Rightarrow> string) \<Rightarrow> json \<Rightarrow> string list \<Rightarrow> string list option" where
  "add_dict_item str_of item all_proxies =
     (case (py_get item ''ip'' JNull, py_get item ''host'' JNull, py_get item ''port'' JNull) of
        (Some a, Some h, Some p) \<Rightarrow>
          (let ip_v = py_or a h
           in if truthy ip_v \<and> truthy p
              then Some (set_add (str_of ip_v @ '':'' @ str_of p) all_proxies)
              else Some all_proxies)
      | _ \<Rightarrow> None)"

fun add_list_items :: "(json \<Rightarrow> string) \<Rightarrow> json list \<Rightarrow> string list \<Rightarrow> string list" where
  "add_list_items str_of [] all_proxies = all_proxies"
| "add_list_items str_of (item # items) all_proxies =
     (case item of
        JDict d \<Rightarrow>
          (case add_dict_item str_of item all_proxies of
             Some s \<Rightarrow> add_list_items str_of items s
           | None \<Rightarrow> add_list_items str_of items all_proxies)
      | JStr t \<Rightarrow>
          if py_in '':'' t then add_list_items str_of items (set_add (py_strip t) all_proxies)
          else add_list_items str_of items all_proxies
      | _ \<Rightarrow> add_list_items str_of items all_proxies)"

fun add_data_items :: "(json \<Rightarrow> string) \<Rightarrow> json list \<Rightarrow> string list \<Rightarrow> string list \<times> bool" where
  "add_data_items str_of [] all_proxies = (all_proxies, False)"
| "add_data_items str_of (item # items) all_proxies =
     (case add_dict_item str_of item all_proxies of
        Some s \<Rightarrow> add_data_items str_of items s
      | None \<Rightarrow> (all_proxies, True))"

definition json_branch :: "(json \<Rightarrow> string) \<Rightarrow> json \<Rightarrow> string list \<Rightarrow> string list \<times> bool" where
  "json_branch str_of data all_proxies =
     (case data of
        JList items \<Rightarrow> (add_list_items str_of items all_proxies, False)
      | JDict d \<Rightarrow>
          (case map_of d ''data'' of
             None \<Rightarrow> (all_proxies, False)
           | Some (JList items) \<Rightarrow> add_data_items str_of items all_proxies
           | Some (JDict e) \<Rightarrow> (all_proxies, e \<noteq> [])
           | Some (JStr t) \<Rightarrow> (all_proxies, t \<noteq> [])
           | Some _ \<Rightarrow> (all_proxies, True))
      | _ \<Rightarrow> (all_proxies, False))"

definition collect_one :: "(json \<Rightarrow> string) \<Rightarrow> http_outcome \<Rightarrow> string list \<Rightarrow> string list" where
  "collect_one str_of outcome all_proxies =
     (case outcome of
        Inl e \<Rightarrow> all_proxies
      | Inr resp \<Rightarrow>
          if status_code resp = 200 then
            (case json_body resp of
               None \<Rightarrow> set_update (extract_proxies_from_text (resp_text resp)) all_proxies
             | Some data \<Rightarrow>
                 (case json_branch str_of data all_proxies of
                    (s, raised) \<Rightarrow>
                      if raised then set_update (extract_proxies_from_text (resp_text resp)) s
                      else s))
          else all_proxies)"

fun collect_loop_sources ::
  "(json \<Rightarrow> string) \<Rightarrow> (string \<Rightarrow> http_outcome) \<Rightarrow> string list \<Rightarrow> string list \<Rightarrow> string list" where
  "collect_loop_sources str_of net [] all_proxies = all_proxies"
| "collect_loop_sources str_of net (url # urls) all_proxies =
     collect_loop_sources str_of net urls (collect_one str_of (net url) all_proxies)"

text \<open>
  The elements of the set when the loop ends. The function returns \<open>list(all_proxies)\<close>:
  these elements in an order Python does not specify, which is what \<open>listing\<close> says of
  a list.
\<close>

definition collect_from_sources ::
  "(json \<Rightarrow> string) \<Rightarrow> (string \<Rightarrow> http_outcome) \<Rightarrow> string list \<Rightarrow> string list" where
  "collect_from_sources str_of net sources = collect_loop_sources str_of net sources []"

definition listing :: "string list \<Rightarrow> string list \<Rightarrow> bool" where
  "listing elems ps = (mset ps = mset elems)"

section \<open>The run of the tester\<close>



record run_env =
  net :: "string \<Rightarrow> http_outcome"
  input_file :: "string list option"
  as_completed :: "string list \<Rightarrow> (string \<times> probe_env) list"




section \<open>Predicates used in the statements\<close>

text \<open>The request through the proxy failed: it raised, or the status is not 200.\<close>

definition http_failed :: "http_outcome \<Rightarrow> bool" where
  "http_failed outcome = (case outcome of Inl e \<Rightarrow> True | Inr resp \<Rightarrow> status_code resp \<noteq> 200)"


text \<open>A line that \<open>load_proxies\<close> does not keep.\<close>

definition dropped_line :: "string \<Rightarrow> bool" where
  "dropped_line l =
     (py_strip l = [] \<or> startswith (py_strip l) ''#'' \<or> \<not> py_in '':'' (py_strip l))"

section \<open>Concrete inputs\<close>

definition env_ok :: "string \<Rightarrow> int \<Rightarrow> probe_env" where
  "env_ok origin ms =
     \<lparr>now_iso = ''2024-01-01T00:00:00'',
      response = Inr \<lparr>status_code = 200,
                      json_body = Some (JDict [(''origin'', JStr origin)]),
                      resp_text = []\<rparr>,
      elapsed_ms = ms\<rparr>"

definition env_status :: "int \<Rightarrow> probe_env" where
  "env_status code =
     \<lparr>now_iso = ''2024-01-01T00:00:00'',
      response = Inr \<lparr>status_code = code, json_body = None, resp_text = []\<rparr>,
      elapsed_ms = 40\<rparr>"

definition env_raise :: "req_exn \<Rightarrow> probe_env" where
  "env_raise e = \<lparr>now_iso = ''2024-01-01T00:00:00'', response = Inl e, elapsed_ms = 10000\<rparr>"

definition conn_env_raise :: "req_exn \<Rightarrow> conn_env" where
  "conn_env_raise e =
     \<lparr>c_now_iso = ''2024-01-01T00:00:00'', connect = None, sendall = None,
      recv = Inr [0x05, 0x00], c_response = Inl e, c_elapsed_ms = 5000\<rparr>"

definition conn_env_status :: "int \<Rightarrow> conn_env" where
  "conn_env_status code =
     \<lparr>c_now_iso = ''2024-01-01T00:00:00'', connect = None, sendall = None,
      recv = Inr [0x05, 0x00],
      c_response = Inr \<lparr>status_code = code, json_body = None, resp_text = []\<rparr>,
      c_elapsed_ms = 300\<rparr>"

definition env_no_origin :: probe_env where
  "env_no_origin =
     \<lparr>now_iso = ''2024-01-01T00:00:00'',
      response = Inr \<lparr>status_code = 200, json_body = Some (JDict []), resp_text = []\<rparr>,
      elapsed_ms = 250\<rparr>"

definition conn_env_no_origin :: conn_env where
  "conn_env_no_origin =
     \<lparr>c_now_iso = ''2024-01-01T00:00:00'', connect = None, sendall = None,
      recv = Inr [0x05, 0x00],
      c_response = Inr \<lparr>status_code = 200, json_body = Some (JDict []), resp_text = []\<rparr>,
      c_elapsed_ms = 250\<rparr>"

definition completed_example :: "(string \<times> probe_env) list" where
  "completed_example =
     [(''2.2.2.2:1080'', env_ok ''5.5.5.5'' 250),
      (''bad'', env_ok ''5.5.5.5'' 10),
      (''1.1.1.1:1080'', env_ok ''5.5.5.5, 9.9.9.9'' 250)]"

definition batch_example :: "string list" where
  "batch_example = [''1.2.3.4:8080'', ''bad'', ''999.1.1.1:80'', ''5.6.7.8:1080'']"

definition duplicates_example :: "string list" where
  "duplicates_example = [''1.1.1.1:1080'', ''1.1.1.1:1080'', ''1.1.1.1:1080:u:p'']"




text \<open>
  A source that answers with the JSON list of the three example strings, and one that
  answers with the same three strings as lines of plain text.
\<close>

definition net_text_lines :: "string \<Rightarrow> http_outcome" where
  "net_text_lines url =
     Inr \<lparr>status_code = 200, json_body = None,
          resp_text = ''1.1.1.1:1080'' @ [CHR 0x0A] @ ''1.1.1.1:1080'' @ [CHR 0x0A]
                      @ ''1.1.1.1:1080:u:p'' @ [CHR 0x0A]\<rparr>"

definition net_json_list :: "string \<Rightarrow> http_outcome" where
  "net_json_list url =
     Inr \<lparr>status_code = 200, json_body = Some (JList (map JStr duplicates_example)),
          resp_text = []\<rparr>"

section \<open>Facts about the probes and the collecting loop\<close>

lemma collect_loop_eq:
  "collect_loop probe js (w, t) =
     (w @ concat (map (\<lambda>(l, e). case probe e l of
                                   Some r \<Rightarrow> if working r then [r] else []
                                 | None \<Rightarrow> []) js),
      t + length js)"
  by (induction js arbitrary: w t) (auto split: option.splits)

lemma collect_loop_members:
  assumes "r \<in> set (fst (collect_loop probe js ([], 0)))"
  shows "\<exists>l e. (l, e) \<in> set js \<and> probe e l = Some r \<and> working r"
  using assms
  by (fastforce simp: collect_loop_eq split: option.splits if_splits)

lemma test_all_proxies_Inr:
  "test_all_proxies m completed = Inr (ws, n) \<longleftrightarrow>
     completed \<noteq> [] \<and> (ws, n) = collect_loop (test_socks5_proxy m) completed ([], 0)"
  by (auto simp: test_all_proxies_def)

lemma check_exit_ip_keeps:
  "working (check_exit_ip m resp r) = working r \<and> latency (check_exit_ip m resp r) = latency r
   \<and> error (check_exit_ip m resp r) = error r"
  by (simp add: check_exit_ip_def Let_def split: option.splits json.splits list.splits)

lemma check_origin_keeps:
  "working (check_origin m resp r) = working r \<and> latency (check_origin m resp r) = latency r"
  by (simp add: check_origin_def Let_def split: option.splits)

lemma test_socks5_proxy_Some:
  assumes "test_socks5_proxy m env l = Some r"
  shows "working r \<and> latency r = Some (elapsed_ms env) \<and> error r = None"
  using assms
  by (auto simp: test_socks5_proxy_def probe_body_def check_exit_ip_keeps new_result_def
           split: option.splits sum.splits if_splits prod.splits)

lemma test_socks5_with_pysocks_Some:
  assumes "test_socks5_with_pysocks m env l = Some r"
  shows "working r \<and> latency r = Some (elapsed_ms env)"
  using assms
  by (auto simp: test_socks5_with_pysocks_def check_origin_keeps new_result_scanner_def
           split: option.splits sum.splits if_splits prod.splits)

lemma collected_have_latency:
  assumes "ws = fst (collect_loop (test_socks5_proxy m) completed ([], 0))
           \<or> ws = fst (collect_loop (test_socks5_with_pysocks m) completed ([], 0))"
    and "r \<in> set ws"
  shows "working r \<and> (\<exists>n. latency r = Some n \<and> latency_key r = n)"
proof -
  from assms consider
    (t) l e where "test_socks5_proxy m e l = Some r"
  | (s) l e where "test_socks5_with_pysocks m e l = Some r"
    by (metis collect_loop_members)
  then show ?thesis
  proof cases
    case t
    then show ?thesis
      using test_socks5_proxy_Some [OF t] by (simp add: latency_key_def)
  next
    case s
    then show ?thesis
      using test_socks5_with_pysocks_Some [OF s] by (simp add: latency_key_def)
  qed
qed

lemma collected_sortable:
  assumes "ws = fst (collect_loop (test_socks5_proxy m) completed ([], 0))
           \<or> ws = fst (collect_loop (test_socks5_with_pysocks m) completed ([], 0))"
  shows "sort_by_latency ws = Some (sort_key latency_key ws)"
proof -
  have "\<not> list_ex (\<lambda>x. latency x = None) ws"
    using collected_have_latency [OF assms] by (auto simp: list_ex_iff)
  then show ?thesis by (simp add: sort_by_latency_def)
qed

lemma check_exit_ip_anonymous:
  assumes "anonymous r = None"
    and "\<not> truthy m \<or> exit_ip (check_exit_ip m resp r) = None
         \<or> exit_ip (check_exit_ip m resp r) = Some (JStr [])"
  shows "anonymous (check_exit_ip m resp r) = None"
  using assms
  by (auto simp: check_exit_ip_def Let_def split: option.splits json.splits list.splits if_splits)

text \<open>
  The tester's guard: without a reference IP, or without an exit IP (the field is still
  \<open>None\<close>, or the empty string), its probe leaves \<open>anonymous\<close> at \<open>None\<close>.
\<close>

lemma tester_anonymous_absent:
  assumes "test_socks5_proxy m env l = Some r"
    and "\<not> truthy m \<or> exit_ip r = None \<or> exit_ip r = Some (JStr [])"
  shows "anonymous r = None"
  using assms
  by (auto simp: test_socks5_proxy_def probe_body_def new_result_def
           intro!: check_exit_ip_anonymous
           split: option.splits sum.splits if_splits prod.splits)

text \<open>The scanner's probe leaves it at \<open>None\<close> without a reference IP.\<close>

lemma pysocks_anonymous_absent_unresolved:
  assumes "test_socks5_with_pysocks m env l = Some r" and "\<not> truthy m"
  shows "anonymous r = None"
  using assms
  by (auto simp: test_socks5_with_pysocks_def check_origin_def new_result_scanner_def Let_def
           split: option.splits sum.splits if_splits prod.splits)

lemma startswith_iff: "startswith s p \<longleftrightarrow> (\<exists>b. s = p @ b)"
  unfolding startswith_def
  by (metis append_eq_conv_conj append_take_drop_id)

lemma py_in_iff: "py_in sub s \<longleftrightarrow> (\<exists>a b. s = a @ sub @ b)"
proof (induction s)
  case Nil
  then show ?case by auto
next
  case (Cons c cs)
  show ?case
  proof
    assume "py_in sub (c # cs)"
    then consider "startswith (c # cs) sub" | "py_in sub cs" by auto
    then show "\<exists>a b. c # cs = a @ sub @ b"
    proof cases
      case 1
      then obtain b where "c # cs = sub @ b" by (auto simp: startswith_iff)
      then have "c # cs = [] @ sub @ b" by simp
      then show ?thesis by blast
    next
      case 2
      then obtain a b where "cs = a @ sub @ b" using Cons.IH by auto
      then have "c # cs = (c # a) @ sub @ b" by simp
      then show ?thesis by blast
    qed
  next
    assume "\<exists>a b. c # cs = a @ sub @ b"
    then obtain a b where ab: "c # cs = a @ sub @ b" by blast
    show "py_in sub (c # cs)"
    proof (cases a)
      case Nil
      then have "startswith (c # cs) sub" using ab by (auto simp: startswith_iff)
      then show ?thesis by simp
    next
      case (Cons x a')
      then have "cs = a' @ sub @ b" using ab by simp
      then have "py_in sub cs" using Cons.IH by blast
      then show ?thesis by simp
    qed
  qed
qed

lemma pysocks_anonymous_whole_origin:
  assumes "parse_pair l = Some f"
    and "response env = Inr resp" "status_code resp = 200"
    and "json_body resp = Some (JDict d)" "map_of d ''origin'' = Some (JStr origin)"
    and "ref \<noteq> []"
  shows "map_option anonymous (test_socks5_with_pysocks (JStr ref) env l)
           = Some (Some (\<not> py_in ref origin))"
  using assms
  by (simp add: test_socks5_with_pysocks_def check_origin_def py_get_def py_contains_def
        CHECK_ANONYMITY_def)

lemma tester_anonymous_first_field:
  assumes "parse_proxy l = Some f"
    and "response env = Inr resp" "status_code resp = 200"
    and "json_body resp = Some (JDict d)" "map_of d ''origin'' = Some (JStr origin)"
    and "py_split CHR '','' origin = first # others" "py_strip first \<noteq> []"
    and "ref \<noteq> []"
  shows "map_option anonymous (test_socks5_proxy (JStr ref) env l)
           = Some (Some (\<not> py_in ref (py_strip first)))"
  using assms
  by (simp add: test_socks5_proxy_def probe_body_def check_exit_ip_def py_get_def
        py_contains_def Let_def)

lemma check_returned_ip_keeps:
  "working (check_returned_ip m resp r) = working r
   \<and> latency (check_returned_ip m resp r) = latency r"
  by (simp add: check_returned_ip_def split: option.splits)

lemma probe_None_iff:
  "test_socks5_proxy m env l = None \<longleftrightarrow> parse_proxy l = None \<or> http_failed (response env)"
  by (auto simp: test_socks5_proxy_def probe_body_def http_failed_def
           split: option.splits sum.splits prod.splits if_splits)

lemma pysocks_None_iff:
  "test_socks5_with_pysocks m env l = None \<longleftrightarrow> parse_pair l = None \<or> http_failed (response env)"
  by (auto simp: test_socks5_with_pysocks_def http_failed_def
           split: option.splits sum.splits prod.splits if_splits)

text \<open>The functions agree with their bodies once the \<open>except\<close> clauses are applied.\<close>

lemma parse_proxy_block:
  "parse_proxy l = (case parse_block l of Inl e \<Rightarrow> None | Inr f \<Rightarrow> f)"
  by (simp add: parse_proxy_def parse_block_def split: list.splits option.splits)

lemma parse_pair_block:
  "parse_pair l = (case pair_block l of Inl e \<Rightarrow> None | Inr f \<Rightarrow> Some f)"
  by (simp add: parse_pair_def pair_block_def split: list.splits option.splits)

lemma check_exit_ip_block: "check_exit_ip m resp r = fst (exit_ip_block m resp r)"
  by (simp add: check_exit_ip_def exit_ip_block_def Let_def
           split: option.splits json.splits list.splits)

lemma check_origin_block: "check_origin m resp r = fst (origin_block m resp r)"
  by (simp add: check_origin_def origin_block_def Let_def split: option.splits)

lemma test_socks5_proxy_raising_eq:
  "test_socks5_proxy_raising m env l = Inr (test_socks5_proxy m env l)"
  by (simp add: test_socks5_proxy_raising_def test_socks5_proxy_def parse_proxy_block
        request_block_def probe_body_def check_exit_ip_block derives_from_Exception_def
        split: sum.splits option.splits)

lemma test_socks5_with_pysocks_raising_eq:
  "test_socks5_with_pysocks_raising m env l = Inr (test_socks5_with_pysocks m env l)"
  by (simp add: test_socks5_with_pysocks_raising_def test_socks5_with_pysocks_def
        parse_pair_block check_origin_block derives_from_Exception_def
        split: sum.splits option.splits)

lemma load_lines_eq: "load_lines ls acc = acc @ filter keep_line (map py_strip ls)"
  by (induction ls arbitrary: acc) (auto simp: Let_def)

lemma dropped_not_kept: "dropped_line l \<Longrightarrow> \<not> keep_line (py_strip l)"
  by (auto simp: dropped_line_def keep_line_def)

lemma parse_proxy_token_count:
  assumes "length (py_split CHR '':'' p) \<noteq> 2" and "length (py_split CHR '':'' p) \<noteq> 4"
  shows "parse_proxy p = None"
  using assms by (auto simp: parse_proxy_def split: list.splits option.splits)

lemma extract_loop_eq:
  "extract_loop ms acc = acc @ map (\<lambda>(a, p). a @ '':'' @ p) (filter valid_match ms)"
  by (induction ms arbitrary: acc) auto

lemma all_octets_True:
  "all_octets ps = Some True \<Longrightarrow> o' \<in> set ps \<Longrightarrow> \<exists>v. py_int o' = Some v \<and> 0 \<le> v \<and> v \<le> 255"
  by (induction ps) (auto split: option.splits if_splits)

lemma tested_is_length:
  "snd (collect_loop probe completed ([], 0)) = length completed"
  by (simp add: collect_loop_eq)

lemma two_spellings:
  "extract_proxies_from_text ''1.1.1.1:1080 1.1.1.1:01080'' = [''1.1.1.1:1080'', ''1.1.1.1:01080'']
   \<and> parse_pair ''1.1.1.1:1080'' = parse_pair ''1.1.1.1:01080''"
  by code_simp

text \<open>The set operations keep the list free of repetitions.\<close>

lemma set_add_props:
  "set (set_add x elems) = insert x (set elems)"
  "distinct elems \<Longrightarrow> distinct (set_add x elems)"
  by (auto simp: set_add_def)

lemma set_update_props:
  "set (set_update xs elems) = set xs \<union> set elems"
  "distinct elems \<Longrightarrow> distinct (set_update xs elems)"
  by (induction xs arbitrary: elems) (auto simp: set_add_props)

lemma add_dict_item_distinct:
  "add_dict_item str_of item acc = Some s \<Longrightarrow> distinct acc \<Longrightarrow> distinct s"
  by (auto simp: add_dict_item_def Let_def set_add_props split: option.splits if_splits)

lemma add_list_items_distinct:
  "distinct acc \<Longrightarrow> distinct (add_list_items str_of items acc)"
  by (induction items arbitrary: acc)
     (auto simp: set_add_props add_dict_item_distinct split: json.splits option.splits)

lemma add_data_items_distinct:
  "distinct acc \<Longrightarrow> distinct (fst (add_data_items str_of items acc))"
  by (induction items arbitrary: acc)
     (auto simp: add_dict_item_distinct split: option.splits)

lemma json_branch_distinct:
  "distinct acc \<Longrightarrow> distinct (fst (json_branch str_of data acc))"
  by (auto simp: json_branch_def add_list_items_distinct add_data_items_distinct
           split: json.splits option.splits)

lemma collect_one_distinct:
  assumes "distinct acc"
  shows "distinct (collect_one str_of outcome acc)"
proof -
  have "distinct s" if "json_branch str_of data acc = (s, raised)" for data s raised
    using json_branch_distinct [OF assms, of str_of data] that by simp
  then show ?thesis
    using assms
    by (auto simp: collect_one_def set_update_props split: sum.splits option.splits prod.splits)
qed

lemma collect_loop_sources_distinct:
  "distinct acc \<Longrightarrow> distinct (collect_loop_sources str_of nw urls acc)"
  by (induction urls arbitrary: acc) (auto simp: collect_one_distinct)

lemma collect_from_sources_distinct:
  "distinct (collect_from_sources str_of nw sources)"
  by (simp add: collect_from_sources_def collect_loop_sources_distinct)




lemma completed_example_ips:
  "map_sum id (\<lambda>(ws, n). map ip ws) (test_all_proxies (JStr ''9.9.9.9'') completed_example)
     = Inr [''2.2.2.2'', ''1.1.1.1'']"
  by code_simp

lemma int_examples:
  "py_int ([CHR 0x1C] @ ''80'') = None
   \<and> py_int ('' 80'' @ [CHR 0x0A]) = Some 80
   \<and> py_int ([CHR 0x0B] @ ''8_0'') = Some 80
   \<and> parse_proxy (''1.2.3.4:'' @ [CHR 0x1C] @ ''80'') = None
   \<and> parse_pair (''1.2.3.4:'' @ [CHR 0x1C] @ ''80'') = None"
  by code_simp

lemma int_digit_limit:
  assumes "max_str_digits < length (filter is_digit (int_strip s))"
  shows "py_int s = None"
proof -
  have "\<not> is_digit CHR ''-''" and "\<not> is_digit CHR ''+''"
    by (simp_all add: is_digit_def)
  then show ?thesis
    using assms by (auto simp: py_int_def Let_def split: list.splits)
qed

section \<open>Results that reach the aggregator\<close>

text \<open>
  C10. Every element appended to the working list, by the tester's loop or by the
  scanner's, has \<open>working\<close> true and an integer latency; so the sort key of each is its
  own latency, the sort never meets \<open>None\<close>, and the default \<open>9999\<close> is not used.
\<close>

theorem C10_working_results_have_latency:
  assumes "test_all_proxies m completed = Inr (ws, n)
           \<or> ws = fst (test_all_proxies_scanner m completed)"
  shows "(\<forall>r \<in> set ws. working r \<and> (\<exists>n. latency r = Some n \<and> latency_key r = n))
         \<and> sort_by_latency ws = Some (sort_key latency_key ws)"
proof -
  from assms have c: "ws = fst (collect_loop (test_socks5_proxy m) completed ([], 0))
           \<or> ws = fst (collect_loop (test_socks5_with_pysocks m) completed ([], 0))"
    by (auto simp: test_all_proxies_Inr test_all_proxies_scanner_def dest: arg_cong [where f = fst])
  show ?thesis
    using collected_have_latency [OF c] collected_sortable [OF c] by blast
qed

theorem C10_witness:
  "\<exists>ws n. test_all_proxies (JStr ''9.9.9.9'') completed_example = Inr (ws, n)
     \<and> map ip ws = [''2.2.2.2'', ''1.1.1.1'']
     \<and> list_all (\<lambda>r. working r \<and> latency r = Some (latency_key r)) ws
     \<and> sort_by_latency ws = Some (sort_key latency_key ws)"
proof -
  obtain ws n where w: "test_all_proxies (JStr ''9.9.9.9'') completed_example = Inr (ws, n)"
    and i: "map ip ws = [''2.2.2.2'', ''1.1.1.1'']"
    using completed_example_ips
    by (cases "test_all_proxies (JStr ''9.9.9.9'') completed_example") auto
  show ?thesis
    using C10_working_results_have_latency [of "JStr ''9.9.9.9''" completed_example ws n] w i
    by (auto simp: list_all_iff)
qed

section \<open>Anonymity\<close>

text \<open>
  C7. With reference IP \<open>9.9.9.9\<close> and a 200 answer whose body has no \<open>origin\<close>, the
  scanner's probes store the empty string as exit IP and report \<open>anonymous = True\<close>; the
  tester's probe, which tests \<open>result['exit_ip']\<close> first, leaves \<open>anonymous\<close> at
  \<open>None\<close>.
\<close>

theorem C7_scanner_anonymous_without_exit_ip:
  "map_option anonymous
     (test_socks5_with_pysocks (JStr ''9.9.9.9'') env_no_origin ''2.2.2.2:1080'')
     = Some (Some True)
   \<and> map_option exit_ip
     (test_socks5_with_pysocks (JStr ''9.9.9.9'') env_no_origin ''2.2.2.2:1080'')
     = Some (Some (JStr []))
   \<and> map_option anonymous
     (test_socks5_connection (JStr ''9.9.9.9'') conn_env_no_origin ''2.2.2.2:1080'')
     = Some (Some True)
   \<and> map_option anonymous
     (test_socks5_proxy (JStr ''9.9.9.9'') env_no_origin ''2.2.2.2:1080'')
     = Some None
   \<and> map_option anonymous
     (test_socks5_with_pysocks JNull env_no_origin ''2.2.2.2:1080'')
     = Some None"
  by code_simp

text \<open>
  C1. With reference IP \<open>9.9.9.9\<close> and the echoed origin \<open>1.1.1.1, 9.9.9.9\<close>, the
  tester's probe keeps only the first field as exit IP and reports \<open>anonymous = True\<close>;
  the scanner's probe tests the whole origin and reports \<open>anonymous = False\<close>. With
  origin \<open>1.1.1.1\<close> the tester reports \<open>anonymous = True\<close>.
\<close>

theorem C1_tester_checks_first_field_only:
  "map_option anonymous
     (test_socks5_proxy (JStr ''9.9.9.9'') (env_ok ''1.1.1.1, 9.9.9.9'' 250) ''2.2.2.2:1080'')
     = Some (Some True)
   \<and> map_option exit_ip
     (test_socks5_proxy (JStr ''9.9.9.9'') (env_ok ''1.1.1.1, 9.9.9.9'' 250) ''2.2.2.2:1080'')
     = Some (Some (JStr ''1.1.1.1''))
   \<and> map_option anonymous
     (test_socks5_with_pysocks (JStr ''9.9.9.9'') (env_ok ''1.1.1.1, 9.9.9.9'' 250) ''2.2.2.2:1080'')
     = Some (Some False)
   \<and> map_option anonymous
     (test_socks5_proxy (JStr ''9.9.9.9'') (env_ok ''1.1.1.1'' 250) ''2.2.2.2:1080'')
     = Some (Some True)"
  by code_simp

section \<open>A request that fails after the proxy was reached\<close>

text \<open>
  In \<open>test_socks5_connection\<close> the handshake succeeds, the request through the proxy
  times out, and the result has \<open>working = True\<close>.
\<close>

theorem C2_counterexample:
  "handshake_ok (conn_env_raise Timeout)
   \<and> http_failed (c_response (conn_env_raise Timeout))
   \<and> map_option working (test_socks5_connection JNull (conn_env_raise Timeout) ''1.2.3.4:1080'')
       = Some True"
  by code_simp

text \<open>
  C2, as the code has it. When the request through the proxy raises or answers with a
  status other than 200, \<open>test_socks5_proxy\<close> and \<open>test_socks5_with_pysocks\<close> return
  no result. In \<open>test_socks5_connection\<close>, after a successful handshake, a status other
  than 200 gives a result with \<open>working\<close> false and no latency, and a request that
  raises gives a result with \<open>working\<close> true and a latency.
\<close>

theorem C2_http_failure_outcome:
  assumes "http_failed (response env)"
    and "handshake_ok cenv" and "parse_pair l' = Some f" and "http_failed (c_response cenv)"
  shows "test_socks5_proxy m env l = None
         \<and> test_socks5_with_pysocks m env l = None
         \<and> (\<exists>r. test_socks5_connection m cenv l' = Some r
                \<and> working r = (case c_response cenv of Inl e \<Rightarrow> True | Inr resp \<Rightarrow> False)
                \<and> latency r = (case c_response cenv of
                                 Inl e \<Rightarrow> Some (c_elapsed_ms cenv)
                               | Inr resp \<Rightarrow> None))"
  using assms
  by (auto simp: probe_None_iff pysocks_None_iff test_socks5_connection_def http_step_def
        http_failed_def new_result_scanner_def split: sum.splits prod.splits)

theorem C2_witness:
  "test_socks5_proxy JNull (env_raise Timeout) ''1.2.3.4:1080'' = None
   \<and> test_socks5_with_pysocks JNull (env_raise Timeout) ''1.2.3.4:1080'' = None
   \<and> map_option working (test_socks5_connection JNull (conn_env_status 503) ''1.2.3.4:1080'')
       = Some False
   \<and> map_option latency (test_socks5_connection JNull (conn_env_status 503) ''1.2.3.4:1080'')
       = Some None"
proof -
  have h1: "http_failed (response (env_raise Timeout))" by code_simp
  have h2: "handshake_ok (conn_env_status 503)" by code_simp
  have h3: "parse_pair ''1.2.3.4:1080'' = Some (''1.2.3.4'', 1080)" by code_simp
  have h4: "http_failed (c_response (conn_env_status 503))" by code_simp
  have h5: "c_response (conn_env_status 503)
              = Inr \<lparr>status_code = 503, json_body = None, resp_text = []\<rparr>"
    by (simp add: conn_env_status_def)
  show ?thesis
    using C2_http_failure_outcome [OF h1 h2 h3 h4, of JNull "''1.2.3.4:1080''"] h5
    by auto
qed

section \<open>What a probe returns\<close>

text \<open>A timeout, a connection error and a 503 answer each give \<open>None\<close>: no result.\<close>

theorem C4_counterexample:
  "test_socks5_proxy JNull (env_raise Timeout) ''1.2.3.4:1080'' = None
   \<and> test_socks5_proxy JNull (env_raise ConnectionError) ''1.2.3.4:1080'' = None
   \<and> test_socks5_proxy JNull (env_status 503) ''1.2.3.4:1080'' = None
   \<and> test_socks5_with_pysocks JNull (env_raise Timeout) ''1.2.3.4:1080'' = None"
  by code_simp

text \<open>
  C4, as the code has it. No exception leaves a probe: whatever its statements raise is
  caught by its \<open>except\<close> clauses, and the probe returns one value. That value is
  \<open>None\<close> exactly when the line does not parse or the request through the proxy failed,
  and otherwise a result with \<open>working\<close> true and no error. On a failed request the
  reason is stored in the local result, which is not returned.
\<close>

theorem C4_failure_is_no_result:
  "test_socks5_proxy_raising m env l = Inr (test_socks5_proxy m env l)
   \<and> test_socks5_with_pysocks_raising m env l = Inr (test_socks5_with_pysocks m env l)
   \<and> (test_socks5_proxy m env l = None \<longleftrightarrow> parse_proxy l = None \<or> http_failed (response env))
   \<and> (test_socks5_with_pysocks m env l = None
        \<longleftrightarrow> parse_pair l = None \<or> http_failed (response env))
   \<and> (\<forall>r. test_socks5_proxy m env l = Some r \<longrightarrow> working r \<and> error r = None)
   \<and> (http_failed (response env) \<longrightarrow>
        \<not> snd (probe_body m env r0)
        \<and> error (fst (probe_body m env r0))
            = Some (case response env of
                      Inl e \<Rightarrow> error_text e
                    | Inr resp \<Rightarrow> ''HTTP '' @ str_int (status_code resp)))"
  using test_socks5_proxy_Some [of m env l]
  by (auto simp: probe_None_iff pysocks_None_iff probe_body_def http_failed_def
           test_socks5_proxy_raising_eq test_socks5_with_pysocks_raising_eq
           split: sum.splits)

theorem C4_witness:
  "parse_block ''1.2.3.4:http'' = Inl ValueError
   \<and> test_socks5_proxy_raising JNull (env_ok ''5.5.5.5'' 250) ''1.2.3.4:http'' = Inr None
   \<and> snd (exit_ip_block (JNum 7) \<lparr>status_code = 200,
                                    json_body = Some (JDict [(''origin'', JStr ''5.5.5.5'')]),
                                    resp_text = []\<rparr>
             (new_result ''1.2.3.4:1080'' (''1.2.3.4'', 1080, None, None) []))
       = Some TypeError
   \<and> map_sum id (map_option anonymous)
        (test_socks5_proxy_raising (JNum 7) (env_ok ''5.5.5.5'' 250) ''1.2.3.4:1080'')
       = Inr (Some None)
   \<and> test_socks5_proxy_raising JNull (env_raise (OtherError ''boom'')) ''1.2.3.4:1080'' = Inr None
   \<and> test_socks5_with_pysocks_raising JNull (env_status 503) ''1.2.3.4:1080'' = Inr None
   \<and> test_socks5_proxy JNull (env_status 503) ''1.2.3.4:1080'' = None
   \<and> error (fst (probe_body JNull (env_status 503)
                   (new_result ''1.2.3.4:1080'' (''1.2.3.4'', 1080, None, None) [])))
       = Some ''HTTP 503''
   \<and> map_option working (test_socks5_proxy JNull (env_ok ''5.5.5.5'' 250) ''1.2.3.4:1080'')
       = Some True
   \<and> map_option error (test_socks5_proxy JNull (env_ok ''5.5.5.5'' 250) ''1.2.3.4:1080'')
       = Some None"
proof -
  have h: "http_failed (response (env_status 503))" by code_simp
  have s: "response (env_status 503) = Inr \<lparr>status_code = 503, json_body = None, resp_text = []\<rparr>"
    by (simp add: env_status_def)
  have t: "str_int 503 = ''503''" by code_simp
  have b: "parse_block ''1.2.3.4:http'' = Inl ValueError" by code_simp
  have p: "test_socks5_proxy JNull (env_ok ''5.5.5.5'' 250) ''1.2.3.4:http'' = None" by code_simp
  have x: "snd (exit_ip_block (JNum 7) \<lparr>status_code = 200,
                                    json_body = Some (JDict [(''origin'', JStr ''5.5.5.5'')]),
                                    resp_text = []\<rparr>
             (new_result ''1.2.3.4:1080'' (''1.2.3.4'', 1080, None, None) []))
       = Some TypeError" by code_simp
  have a: "map_option anonymous
             (test_socks5_proxy (JNum 7) (env_ok ''5.5.5.5'' 250) ''1.2.3.4:1080'') = Some None"
    by code_simp
  have o: "test_socks5_proxy JNull (env_raise (OtherError ''boom'')) ''1.2.3.4:1080'' = None"
    by code_simp
  have y: "test_socks5_with_pysocks JNull (env_status 503) ''1.2.3.4:1080'' = None"
    by code_simp
  have "test_socks5_proxy JNull (env_ok ''5.5.5.5'' 250) ''1.2.3.4:1080'' \<noteq> None"
    by code_simp
  then obtain r where r: "test_socks5_proxy JNull (env_ok ''5.5.5.5'' 250) ''1.2.3.4:1080'' = Some r"
    by blast
  show ?thesis
    using C4_failure_is_no_result
            [of JNull "env_status 503" "''1.2.3.4:1080''"
                "new_result ''1.2.3.4:1080'' (''1.2.3.4'', 1080, None, None) []"]
          C4_failure_is_no_result [of JNull "env_ok ''5.5.5.5'' 250" "''1.2.3.4:1080''"]
          C4_failure_is_no_result [of JNull "env_ok ''5.5.5.5'' 250" "''1.2.3.4:http''"]
          C4_failure_is_no_result [of "JNum 7" "env_ok ''5.5.5.5'' 250" "''1.2.3.4:1080''"]
          C4_failure_is_no_result [of JNull "env_raise (OtherError ''boom'')" "''1.2.3.4:1080''"]
          h s t b p x a o y r
    by simp
qed

section \<open>The ranked result set\<close>

text \<open>
  Two results with the same latency come out in the order their probes finished, here
  \<open>2.2.2.2\<close> before \<open>1.1.1.1\<close>; the same probes finishing in the other order give the
  other output.
\<close>

theorem C5_counterexample:
  "(case test_all_proxies (JStr ''9.9.9.9'') completed_example of
      Inl e \<Rightarrow> None
    | Inr (ws, n) \<Rightarrow> map_option (map ip) (sort_by_latency ws))
     = Some [''2.2.2.2'', ''1.1.1.1'']
   \<and> (case test_all_proxies (JStr ''9.9.9.9'') completed_example of
      Inl e \<Rightarrow> None
    | Inr (ws, n) \<Rightarrow> map_option (map latency) (sort_by_latency ws))
     = Some [Some 250, Some 250]
   \<and> (case test_all_proxies (JStr ''9.9.9.9'') (rev completed_example) of
      Inl e \<Rightarrow> None
    | Inr (ws, n) \<Rightarrow> map_option (map ip) (sort_by_latency ws))
     = Some [''1.1.1.1'', ''2.2.2.2'']"
  by code_simp

text \<open>
  C5, as the code has it. When every result has a latency, the sort returns the results
  in ascending order of latency, as a permutation of its input, and results with the
  same latency keep the order they had in the input (the completion order).
\<close>

theorem C5_sorted_by_latency_stable:
  assumes "list_all (\<lambda>x. latency x \<noteq> None) ws"
  shows "\<exists>out. sort_by_latency ws = Some out
           \<and> sorted (map latency_key out)
           \<and> map latency out = map (Some \<circ> latency_key) out
           \<and> mset out = mset ws
           \<and> (\<forall>k. filter (\<lambda>x. latency_key x = k) out = filter (\<lambda>x. latency_key x = k) ws)"
proof -
  from assms have n: "\<not> list_ex (\<lambda>x. latency x = None) ws"
    by (auto simp: list_all_iff list_ex_iff)
  then have s: "sort_by_latency ws = Some (sort_key latency_key ws)"
    by (simp add: sort_by_latency_def)
  have l: "map latency (sort_key latency_key ws) = map (Some \<circ> latency_key) (sort_key latency_key ws)"
    using assms by (auto simp: list_all_iff latency_key_def)
  show ?thesis
    using s l by (simp add: sorted_sort_key sort_key_stable)
qed

theorem C5_witness:
  "\<exists>ws n out. test_all_proxies (JStr ''9.9.9.9'') completed_example = Inr (ws, n)
     \<and> sort_by_latency ws = Some out
     \<and> sorted (map latency_key out)
     \<and> mset out = mset ws
     \<and> map ip (filter (\<lambda>x. latency_key x = 250) out) = [''2.2.2.2'', ''1.1.1.1'']"
proof -
  have e: "map_sum id (\<lambda>(ws, n). (list_all (\<lambda>x. latency x \<noteq> None) ws,
                                    map ip (filter (\<lambda>x. latency_key x = 250) ws)))
             (test_all_proxies (JStr ''9.9.9.9'') completed_example)
           = Inr (True, [''2.2.2.2'', ''1.1.1.1''])"
    by code_simp
  then obtain ws n where w: "test_all_proxies (JStr ''9.9.9.9'') completed_example = Inr (ws, n)"
    and a: "list_all (\<lambda>x. latency x \<noteq> None) ws"
    and b: "map ip (filter (\<lambda>x. latency_key x = 250) ws) = [''2.2.2.2'', ''1.1.1.1'']"
    by (cases "test_all_proxies (JStr ''9.9.9.9'') completed_example") auto
  from C5_sorted_by_latency_stable [OF a] obtain out where
    "sort_by_latency ws = Some out"
    "sorted (map latency_key out)"
    "mset out = mset ws"
    "filter (\<lambda>x. latency_key x = 250) out = filter (\<lambda>x. latency_key x = 250) ws"
    by blast
  then show ?thesis using w b by auto
qed

section \<open>Parsing and the batch\<close>

text \<open>
  The example batch: \<open>load_proxies\<close> keeps three of the four lines, and each of them
  parses, also \<open>999.1.1.1:80\<close>; a port of \<open>99999\<close> parses too, and a probe is run for
  \<open>999.1.1.1:80\<close>.
\<close>

theorem C3_counterexample:
  "load_proxies (Some batch_example) = [''1.2.3.4:8080'', ''999.1.1.1:80'', ''5.6.7.8:1080'']
   \<and> map parse_proxy (load_proxies (Some batch_example))
       = [Some (''1.2.3.4'', 8080, None, None), Some (''999.1.1.1'', 80, None, None),
          Some (''5.6.7.8'', 1080, None, None)]
   \<and> parse_proxy ''1.2.3.4:99999'' = Some (''1.2.3.4'', 99999, None, None)
   \<and> map_option ip (test_socks5_proxy JNull (env_ok ''5.5.5.5'' 250) ''999.1.1.1:80'')
       = Some ''999.1.1.1''"
  by code_simp

text \<open>
  C3, as the code has it. A line that is blank, begins with \<open>#\<close> or has no colon is
  dropped by \<open>load_proxies\<close> and the other lines are loaded as without it. A line with
  a token count other than 2 or 4, or with a port for which \<open>int\<close> raises, gives
  \<open>None\<close> from the probe, and the batch gives the working list that the loop computes
  for the other lines, with one more probe counted. The range checks exist in
  \<open>extract_proxies_from_text\<close> only: every string it returns has a port in 1..65535 and
  octets in 0..255.
\<close>

theorem C3_malformed_lines:
  assumes "dropped_line l"
    and "length (py_split CHR '':'' p) \<noteq> 2 \<and> length (py_split CHR '':'' p) \<noteq> 4"
    and "(py_split CHR '':'' q = [a, b] \<or> py_split CHR '':'' q = [a, b, u, w]) \<and> py_int b = None"
  shows "load_lines (xs @ l # ys) acc = load_lines (xs @ ys) acc
         \<and> test_socks5_proxy m env p = None
         \<and> test_socks5_proxy m env q = None
         \<and> test_all_proxies m (js @ (p, env) # ks)
             = Inr (fst (collect_loop (test_socks5_proxy m) (js @ ks) ([], 0)),
                    Suc (length (js @ ks)))
         \<and> test_all_proxies m (js @ (q, env) # ks)
             = Inr (fst (collect_loop (test_socks5_proxy m) (js @ ks) ([], 0)),
                    Suc (length (js @ ks)))
         \<and> (\<forall>s \<in> set (extract_proxies_from_text text).
               \<exists>h d n. s = h @ '':'' @ d \<and> py_int d = Some n \<and> 1 \<le> n \<and> n \<le> 65535
                 \<and> (\<forall>o' \<in> set (py_split CHR ''.'' h).
                       \<exists>v. py_int o' = Some v \<and> 0 \<le> v \<and> v \<le> 255))"
proof -
  have 1: "load_lines (xs @ l # ys) acc = load_lines (xs @ ys) acc"
    using dropped_not_kept [OF assms(1)] by (simp add: load_lines_eq)
  have 2: "test_socks5_proxy m env p = None"
    using assms(2) by (simp add: test_socks5_proxy_def parse_proxy_token_count)
  have 3: "test_socks5_proxy m env q = None"
    using assms(3) by (auto simp: test_socks5_proxy_def parse_proxy_def)
  have 4: "test_all_proxies m (js @ (z, env) # ks)
             = Inr (fst (collect_loop (test_socks5_proxy m) (js @ ks) ([], 0)),
                    Suc (length (js @ ks)))"
    if "test_socks5_proxy m env z = None" for z
    using that by (simp add: test_all_proxies_def collect_loop_eq)
  have 5: "\<exists>h d n. s = h @ '':'' @ d \<and> py_int d = Some n \<and> 1 \<le> n \<and> n \<le> 65535
                 \<and> (\<forall>o' \<in> set (py_split CHR ''.'' h).
                       \<exists>v. py_int o' = Some v \<and> 0 \<le> v \<and> v \<le> 255)"
    if "s \<in> set (extract_proxies_from_text text)" for s
  proof -
    from that obtain h d where hd: "s = h @ '':'' @ d" and v: "valid_match (h, d)"
      by (auto simp: extract_proxies_from_text_def extract_loop_eq)
    from v obtain n where n: "py_int d = Some n" "1 \<le> n" "n \<le> 65535"
      and o: "all_octets (py_split CHR ''.'' h) = Some True"
      by (auto simp: valid_match_def split: option.splits if_splits)
    show ?thesis
      using hd n all_octets_True [OF o] by blast
  qed
  show ?thesis using 1 2 3 4 [OF 2] 4 [OF 3] 5 by blast
qed

theorem C3_witness:
  "load_lines ([''1.2.3.4:8080''] @ ''# 9.9.9.9:1'' # [''5.6.7.8:1080'']) []
     = [''1.2.3.4:8080'', ''5.6.7.8:1080'']
   \<and> test_socks5_proxy JNull (env_ok ''5.5.5.5'' 250) ''bad'' = None
   \<and> test_socks5_proxy JNull (env_ok ''5.5.5.5'' 250) (''1.2.3.4:'' @ [CHR 0x1C] @ ''80'') = None
   \<and> map_sum id (\<lambda>(ws, n). (map proxy ws, n))
        (test_all_proxies JNull
           ([(''1.2.3.4:8080'', env_ok ''5.5.5.5'' 250)] @ (''bad'', env_ok ''5.5.5.5'' 250) # []))
       = Inr ([''1.2.3.4:8080''], 2)
   \<and> test_all_proxies JNull
        ([] @ (''1.2.3.4:'' @ [CHR 0x1C] @ ''80'', env_ok ''5.5.5.5'' 250) # [])
       = Inr ([], 1)
   \<and> extract_proxies_from_text ''1.2.3.4:8080 bad 999.1.1.1:80 5.6.7.8:1080''
       = [''1.2.3.4:8080'', ''5.6.7.8:1080'']"
proof -
  have d: "dropped_line ''# 9.9.9.9:1''" by code_simp
  have t: "length (py_split CHR '':'' ''bad'') \<noteq> 2 \<and> length (py_split CHR '':'' ''bad'') \<noteq> 4"
    by code_simp
  have q: "(py_split CHR '':'' (''1.2.3.4:'' @ [CHR 0x1C] @ ''80'') = [''1.2.3.4'', [CHR 0x1C] @ ''80'']
              \<or> py_split CHR '':'' (''1.2.3.4:'' @ [CHR 0x1C] @ ''80'')
                   = [''1.2.3.4'', [CHR 0x1C] @ ''80'', [], []])
            \<and> py_int ([CHR 0x1C] @ ''80'') = None"
    by code_simp
  have e: "load_lines ([''1.2.3.4:8080''] @ [''5.6.7.8:1080'']) []
             = [''1.2.3.4:8080'', ''5.6.7.8:1080'']"
    by code_simp
  have f: "map proxy (fst (collect_loop (test_socks5_proxy JNull)
                             ([(''1.2.3.4:8080'', env_ok ''5.5.5.5'' 250)] @ []) ([], 0)))
             = [''1.2.3.4:8080'']"
    by code_simp
  have g: "fst (collect_loop (test_socks5_proxy JNull) ([] @ []) ([], 0)) = []"
    by simp
  have x: "extract_proxies_from_text ''1.2.3.4:8080 bad 999.1.1.1:80 5.6.7.8:1080''
       = [''1.2.3.4:8080'', ''5.6.7.8:1080'']"
    by code_simp
  show ?thesis
    using C3_malformed_lines [OF d t q, of "[''1.2.3.4:8080'']" "[''5.6.7.8:1080'']" "[]"
            JNull "env_ok ''5.5.5.5'' 250" "[(''1.2.3.4:8080'', env_ok ''5.5.5.5'' 250)]" "[]"]
          C3_malformed_lines [OF d t q, of "[]" "[]" "[]"
            JNull "env_ok ''5.5.5.5'' 250" "[]" "[]"]
          e f g x
    by simp
qed

section \<open>Duplicates\<close>

text \<open>
  The tester loads the three example lines as three entries and runs three probes.
\<close>

theorem C6_counterexample:
  "load_proxies (Some duplicates_example)
     = [''1.1.1.1:1080'', ''1.1.1.1:1080'', ''1.1.1.1:1080:u:p'']
   \<and> map_sum id snd
        (test_all_proxies JNull
           (map (\<lambda>p. (p, env_raise Timeout)) (load_proxies (Some duplicates_example))))
       = Inr 3"
  by code_simp

text \<open>
  C6, as the code has it. The tester's \<open>load_proxies\<close> keeps every stripped line that
  passes its filter, in order and with its multiplicity, and \<open>test_all_proxies\<close> runs
  one probe per entry. The scanner's \<open>collect_from_sources\<close> gathers strings in a set:
  whatever the sources answer, no string is in it twice, so a schedule of its elements
  probes each string once and runs as many probes as there are distinct strings; a
  source that answers with plain text adds the extracted strings to the ones collected
  before.
\<close>

theorem C6_no_structural_deduplication:
  assumes "listing (collect_from_sources str_of nw sources) ps"
    and "mset (map fst completed) = mset ps"
    and "status_code resp = 200 \<and> json_body resp = None"
  shows "load_proxies (Some ls) = filter keep_line (map py_strip ls)
         \<and> map_sum id snd (test_all_proxies m jobs)
             = (if jobs = [] then Inl ZeroDivisionError else Inr (length jobs))
         \<and> distinct (collect_from_sources str_of nw sources)
         \<and> distinct (map fst completed)
         \<and> snd (test_all_proxies_scanner m completed)
             = card (set (collect_from_sources str_of nw sources))
         \<and> set (collect_one str_of (Inr resp) all_proxies)
             = set all_proxies \<union> set (extract_proxies_from_text (resp_text resp))
         \<and> (distinct all_proxies \<longrightarrow> distinct (collect_one str_of (Inr resp) all_proxies))"
proof -
  have d: "distinct (collect_from_sources str_of nw sources)"
    by (rule collect_from_sources_distinct)
  from assms(1, 2) have m: "mset (map fst completed) = mset (collect_from_sources str_of nw sources)"
    by (simp add: listing_def)
  have 1: "distinct (map fst completed)"
    using d m by (metis mset_eq_imp_distinct_iff)
  have 2: "length completed = card (set (collect_from_sources str_of nw sources))"
    using d m by (metis distinct_card length_map size_mset)
  have 3: "set (collect_one str_of (Inr resp) all_proxies)
             = set all_proxies \<union> set (extract_proxies_from_text (resp_text resp))"
    using assms(3) by (auto simp: collect_one_def set_update_props)
  show ?thesis
    using d 1 2 3
    by (simp add: load_proxies_def load_lines_eq test_all_proxies_def
          test_all_proxies_scanner_def tested_is_length collect_one_distinct)
qed

theorem C6_witness:
  "collect_from_sources (\<lambda>v. []) net_json_list [''u1'', ''u2'']
     = [''1.1.1.1:1080'', ''1.1.1.1:1080:u:p'']
   \<and> collect_from_sources (\<lambda>v. []) net_text_lines [''u1'', ''u2''] = [''1.1.1.1:1080'']
   \<and> snd (test_all_proxies_scanner JNull
            [(''1.1.1.1:1080:u:p'', env_raise Timeout), (''1.1.1.1:1080'', env_raise Timeout)])
       = 2
   \<and> set (collect_one (\<lambda>v. []) (net_text_lines ''u1'') [''5.5.5.5:80'', ''1.1.1.1:1080''])
       = {''5.5.5.5:80'', ''1.1.1.1:1080''}
   \<and> load_proxies (Some duplicates_example) = filter keep_line (map py_strip duplicates_example)"
proof -
  have c: "collect_from_sources (\<lambda>v. []) net_json_list [''u1'', ''u2'']
             = [''1.1.1.1:1080'', ''1.1.1.1:1080:u:p'']"
    by code_simp
  have t: "collect_from_sources (\<lambda>v. []) net_text_lines [''u1'', ''u2''] = [''1.1.1.1:1080'']"
    by code_simp
  have l: "listing (collect_from_sources (\<lambda>v. []) net_json_list [''u1'', ''u2''])
             [''1.1.1.1:1080:u:p'', ''1.1.1.1:1080'']"
    unfolding c by (simp add: listing_def)
  have m: "mset (map fst [(''1.1.1.1:1080:u:p'', env_raise Timeout), (''1.1.1.1:1080'', env_raise Timeout)])
             = mset [''1.1.1.1:1080:u:p'', ''1.1.1.1:1080'']"
    by simp
  have n: "net_text_lines ''u1''
             = Inr \<lparr>status_code = 200, json_body = None,
                    resp_text = ''1.1.1.1:1080'' @ [CHR 0x0A] @ ''1.1.1.1:1080'' @ [CHR 0x0A]
                                @ ''1.1.1.1:1080:u:p'' @ [CHR 0x0A]\<rparr>"
    by (simp add: net_text_lines_def)
  have r: "status_code \<lparr>status_code = 200, json_body = None,
                    resp_text = ''1.1.1.1:1080'' @ [CHR 0x0A] @ ''1.1.1.1:1080'' @ [CHR 0x0A]
                                @ ''1.1.1.1:1080:u:p'' @ [CHR 0x0A]\<rparr> = 200
           \<and> json_body \<lparr>status_code = 200, json_body = None,
                    resp_text = ''1.1.1.1:1080'' @ [CHR 0x0A] @ ''1.1.1.1:1080'' @ [CHR 0x0A]
                                @ ''1.1.1.1:1080:u:p'' @ [CHR 0x0A]\<rparr> = None"
    by simp
  have x: "extract_proxies_from_text (''1.1.1.1:1080'' @ [CHR 0x0A] @ ''1.1.1.1:1080'' @ [CHR 0x0A]
                                @ ''1.1.1.1:1080:u:p'' @ [CHR 0x0A])
             = [''1.1.1.1:1080'', ''1.1.1.1:1080'', ''1.1.1.1:1080'']"
    by code_simp
  have k: "card {''1.1.1.1:1080'', ''1.1.1.1:1080:u:p''} = 2"
    by simp
  show ?thesis
    using C6_no_structural_deduplication [OF l m r, of duplicates_example JNull "[]"
            "[''5.5.5.5:80'', ''1.1.1.1:1080'']"]
          c t n x k
    by auto
qed

section \<open>The reference IP\<close>



end
